theory Spec2Isabelle
  imports Complex_Main
begin

section \<open>Conventions of the embedding\<close>

text \<open>
  The simulator is written in Python over floats and numpy arrays. Floats are modelled
  as \<^typ>\<open>real\<close> (exact arithmetic, no rounding error, no NaN), Python integers as
  \<^typ>\<open>int\<close>, numpy vectors as lists. Every call of a random generator is a parameter
  of the model: the value that the generator returned. A theorem that quantifies over
  these parameters therefore speaks about every seed. Exceptions are values of the
  type \<open>error\<close>, returned on the left of a sum.
\<close>

datatype error = ValueError | IndexError | KeyError | ZeroDivisionError

text \<open>Python's \<open>int(x)\<close> on a float truncates towards zero.\<close>

definition py_int :: "real \<Rightarrow> int" where
  "py_int x = (if 0 \<le> x then \<lfloor>x\<rfloor> else \<lceil>x\<rceil>)"

text \<open>Indexing a sequence: a negative index counts from the end, out of range raises.\<close>

definition py_get :: "'a list \<Rightarrow> int \<Rightarrow> error + 'a" where
  "py_get xs i =
     (if 0 \<le> i \<and> i < int (length xs) then Inr (xs ! nat i)
      else if i < 0 \<and> - int (length xs) \<le> i then Inr (xs ! nat (int (length xs) + i))
      else Inl IndexError)"

text \<open>True division by a Python integer raises on zero.\<close>

definition py_div :: "real \<Rightarrow> int \<Rightarrow> error + real" where
  "py_div a b = (if b = 0 then Inl ZeroDivisionError else Inr (a / real_of_int b))"

text \<open>\<open>random.uniform(a, b)\<close> is \<open>a + (b - a) * random()\<close>; \<open>u\<close> is the value of \<open>random()\<close>.\<close>

definition uniform :: "real \<Rightarrow> real \<Rightarrow> real \<Rightarrow> real" where
  "uniform a b u = a + (b - a) * u"

text \<open>\<open>np.rint\<close>: round to the nearest integer, ties to the even one.\<close>

definition rint :: "real \<Rightarrow> int" where
  "rint x =
     (let f = \<lfloor>x\<rfloor>; d = x - real_of_int f
      in if d < 1 / 2 then f else if 1 / 2 < d then f + 1 else if even f then f else f + 1)"

text \<open>\<open>np.round(x, 1)\<close> scales by ten, rounds and scales back.\<close>

definition np_round1 :: "real \<Rightarrow> real" where
  "np_round1 x = real_of_int (rint (x * 10)) / 10"

text \<open>\<open>np.mean\<close> of a non-empty vector (numpy gives NaN on an empty one, see \<open>np_mean_opt\<close>).\<close>

definition np_mean :: "real list \<Rightarrow> real" where
  "np_mean xs = sum_list xs / real (length xs)"

section \<open>The weather-driven engine (app.py)\<close>

subsection \<open>Data\<close>

record weather_day =
  day :: nat
  temperature :: real
  rainfall :: real
  evapotranspiration :: real

record nutrients =
  nut_N :: real
  nut_P :: real
  nut_K :: real

record costs_rec =
  cost_system :: real
  cost_water :: real
  cost_fertilizer :: real
  cost_labor :: real

record sensor_node =
  node_id :: nat
  sensor_type :: string
  position :: "real \<times> real \<times> real"
  battery :: real
  operational :: bool

record farm =
  size_ha :: real
  crop :: string
  soil :: string
  days :: int
  current_date :: int
  day_counter :: int
  soil_moisture :: "real list"
  soil_nutrients :: nutrients
  crop_growth_stage :: real
  pest_pressure :: real
  weather :: "weather_day list"
  irrigation_applied :: real
  fertilizer_applied :: real
  water_used :: real
  yield_kg :: real
  costs :: costs_rec
  revenue :: real
  nodes :: "sensor_node list"

subsection \<open>Random draws\<close>

text \<open>
  One record per place where the code draws: the normal and Weibull samples of the
  weather profile, the draws of one sensor reading, the draws of one day.
\<close>

record weather_draws =
  weibull :: "nat \<Rightarrow> real"
  et_normal :: "nat \<Rightarrow> real"

datatype choice3 = First | Second | Third

record net_draw =
  depth_choice :: choice3
  x_u :: real
  y_u :: real

record init_draws =
  moisture_u :: "nat \<Rightarrow> real"
  weather_d :: weather_draws
  network_d :: "nat \<Rightarrow> net_draw"

record node_draw =
  battery_u :: real
  fail_r :: real
  noise :: real
  maint_r :: real

record tick_draws =
  dep_noise :: real
  node_draws :: "nat \<Rightarrow> node_draw"

subsection \<open>Construction\<close>

definition initialize_soil_moisture :: "string \<Rightarrow> (nat \<Rightarrow> real) \<Rightarrow> real list" where
  "initialize_soil_moisture soil_type u =
     (if soil_type = ''sandy'' then map (\<lambda>i. uniform 15 25 (u i)) [0..<3]
      else if soil_type = ''clay'' then map (\<lambda>i. uniform 30 40 (u i)) [0..<3]
      else map (\<lambda>i. uniform 20 30 (u i)) [0..<3])"

text \<open>
  One row of the weather table. The evapotranspiration is computed from the seasonal
  temperature before the heat wave is added; the slices \<open>[40:45]\<close> and \<open>[60:80]\<close> are
  cut at the length of the table by the enclosing \<open>map\<close>.
\<close>

definition weather_row :: "string \<Rightarrow> int \<Rightarrow> weather_draws \<Rightarrow> nat \<Rightarrow> weather_day" where
  "weather_row crop_type n wd d =
     (let temperature0 = 15 + 10 * sin (2 * pi * real d / real_of_int n);
          rainfall0 = max 0 (5 * weibull wd d);
          et = 0.5 * temperature0 + et_normal wd d;
          heat_wave = (if 40 \<le> d \<and> d < 45 then 8 else 0);
          drought = (if 60 \<le> d \<and> d < 80 then - 0.7 else 0);
          temperature1 = (if crop_type = ''wheat'' then temperature0 + heat_wave else temperature0);
          rainfall1 = (if crop_type = ''wheat'' then max 0 (rainfall0 + drought) else rainfall0)
      in \<lparr>day = d, temperature = np_round1 temperature1, rainfall = np_round1 rainfall1,
          evapotranspiration = np_round1 et\<rparr>)"

text \<open>numpy refuses a negative sample count (\<open>np.random.weibull(0.8, days)\<close>).\<close>

definition generate_weather_profile ::
  "string \<Rightarrow> int \<Rightarrow> weather_draws \<Rightarrow> error + weather_day list" where
  "generate_weather_profile crop_type n wd =
     (if n < 0 then Inl ValueError else Inr (map (weather_row crop_type n wd) [0..<nat n]))"

definition depth_of :: "choice3 \<Rightarrow> real" where
  "depth_of c = (case c of First \<Rightarrow> 0.1 | Second \<Rightarrow> 0.3 | Third \<Rightarrow> 0.6)"

definition sensor_types :: "string list" where
  "sensor_types = [''soil_moisture'', ''nutrient'', ''pest'']"

definition new_node :: "real \<Rightarrow> (nat \<Rightarrow> net_draw) \<Rightarrow> nat \<Rightarrow> sensor_node" where
  "new_node sz nd i =
     \<lparr>node_id = i, sensor_type = sensor_types ! (i mod 3),
      position = (uniform 0 (sqrt sz) (x_u (nd i)), uniform 0 (sqrt sz) (y_u (nd i)),
                  depth_of (depth_choice (nd i))),
      battery = 100, operational = True\<rparr>"

definition initialize_network :: "real \<Rightarrow> (nat \<Rightarrow> net_draw) \<Rightarrow> sensor_node list" where
  "initialize_network sz nd = map (new_node sz nd) [0..<nat (py_int (sz * 1.5))]"

text \<open>
  \<open>VirtualFarm.__init__\<close>. The start date is the day number of the parsed date; no
  argument is validated, the only failure is the one of the weather profile.
\<close>

definition VirtualFarm_init ::
  "real \<Rightarrow> string \<Rightarrow> string \<Rightarrow> int \<Rightarrow> int \<Rightarrow> init_draws \<Rightarrow> error + farm" where
  "VirtualFarm_init sz crop_type soil_type simulation_days start_date dr =
     (case generate_weather_profile crop_type simulation_days (weather_d dr) of
        Inl e \<Rightarrow> Inl e
      | Inr w \<Rightarrow>
          Inr \<lparr>size_ha = sz, crop = crop_type, soil = soil_type, days = simulation_days,
               current_date = start_date, day_counter = 0,
               soil_moisture = initialize_soil_moisture soil_type (moisture_u dr),
               soil_nutrients = \<lparr>nut_N = 50, nut_P = 30, nut_K = 40\<rparr>,
               crop_growth_stage = 0, pest_pressure = 0, weather = w,
               irrigation_applied = 0, fertilizer_applied = 0, water_used = 0, yield_kg = 0,
               costs = \<lparr>cost_system = 0, cost_water = 0, cost_fertilizer = 0, cost_labor = 0\<rparr>,
               revenue = 0, nodes = initialize_network sz (network_d dr)\<rparr>)"

subsection \<open>Per-day physics\<close>

definition update_soil_moisture :: "real \<Rightarrow> weather_day \<Rightarrow> farm \<Rightarrow> farm" where
  "update_soil_moisture g w s =
     (let depletion = 0.7 * evapotranspiration w + g;
          rainfall_effect = 0.6 * rainfall w
      in s\<lparr>soil_moisture := map (\<lambda>m. max 0 (m - depletion + rainfall_effect)) (soil_moisture s),
           water_used := water_used s + depletion\<rparr>)"

definition stress_factor :: "weather_day \<Rightarrow> real" where
  "stress_factor w = 1 - max 0 (temperature w - 30) / 20"

definition daily_growth :: "weather_day \<Rightarrow> farm \<Rightarrow> real" where
  "daily_growth w s =
     (let base_growth = 0.008 * min (temperature w) 30 / 30;
          moisture_factor = np_mean (soil_moisture s) / 30;
          growth = base_growth * moisture_factor;
          growth1 = (if temperature w > 32 then growth * 0.7 else growth)
      in if np_mean (soil_moisture s) < 15 then growth1 * 0.5 else growth1)"

definition update_crop_growth :: "weather_day \<Rightarrow> farm \<Rightarrow> farm" where
  "update_crop_growth w s =
     (let s1 = s\<lparr>crop_growth_stage := min 1 (crop_growth_stage s + daily_growth w s)\<rparr>
      in if crop_growth_stage s1 \<ge> 0.95
         then s1\<lparr>yield_kg := size_ha s1 * 5000 * stress_factor w\<rparr>
         else s1)"

definition update_pest_pressure :: "weather_day \<Rightarrow> farm \<Rightarrow> farm" where
  "update_pest_pressure w s =
     (let base_growth = 0.05 * temperature w / 25;
          humidity_factor = 1 + (if rainfall w > 5 then 1 else 0) * 0.3;
          s1 = s\<lparr>pest_pressure := min 1 (pest_pressure s * (1 + base_growth) * humidity_factor)\<rparr>
      in s1\<lparr>pest_pressure := pest_pressure s1 * 0.95\<rparr>)"

subsection \<open>Sensor network\<close>

text \<open>
  \<open>SensorNode.measure\<close>: the farm is the node's back-reference, passed as an argument.
  The result is the node after the reading and the reading, \<open>None\<close> for Python's \<open>None\<close>.
\<close>

definition measure_node :: "node_draw \<Rightarrow> farm \<Rightarrow> sensor_node \<Rightarrow> error + (sensor_node \<times> real option)" where
  "measure_node d f n =
     (if \<not> operational n then Inr (n, None)
      else
        (let n1 = n\<lparr>battery := battery n - uniform 0.1 0.5 (battery_u d)\<rparr>
         in if fail_r d < 0.005 then Inr (n1\<lparr>operational := False\<rparr>, None)
            else if sensor_type n1 = ''soil_moisture'' then
              (let depth = py_int (snd (snd (position n1)) * 10)
               in case py_get (soil_moisture f) (depth div 10 - 1) of
                    Inl e \<Rightarrow> Inl e
                  | Inr true_value \<Rightarrow> Inr (n1, Some (max 0 (true_value + noise d))))
            else if sensor_type n1 = ''nutrient'' then
              Inr (n1, Some (max 0 (nut_N (soil_nutrients f) + noise d)))
            else if sensor_type n1 = ''pest'' then
              Inr (n1, Some (max 0 (min 100 (pest_pressure f * 100 + noise d))))
            else Inr (n1, None)))"

definition maintain :: "sensor_node \<Rightarrow> sensor_node" where
  "maintain n = n\<lparr>operational := True, battery := 100\<rparr>"

record measurements =
  m_soil_moisture :: "real list"
  m_nutrient :: "real list"
  m_pest :: "real list"

text \<open>\<open>measurements[node.sensor_type].append(value)\<close>; an unknown key raises.\<close>

definition append_measurement :: "string \<Rightarrow> real \<Rightarrow> measurements \<Rightarrow> error + measurements" where
  "append_measurement k v m =
     (if k = ''soil_moisture'' then Inr (m\<lparr>m_soil_moisture := m_soil_moisture m @ [v]\<rparr>)
      else if k = ''nutrient'' then Inr (m\<lparr>m_nutrient := m_nutrient m @ [v]\<rparr>)
      else if k = ''pest'' then Inr (m\<lparr>m_pest := m_pest m @ [v]\<rparr>)
      else Inl KeyError)"

text \<open>The loop of \<open>collect_data\<close> over the nodes; \<open>i\<close> is the index of the first one.\<close>

fun collect_nodes ::
  "(nat \<Rightarrow> node_draw) \<Rightarrow> farm \<Rightarrow> nat \<Rightarrow> sensor_node list \<Rightarrow> measurements
   \<Rightarrow> error + (sensor_node list \<times> measurements)" where
  "collect_nodes dr f i [] m = Inr ([], m)"
| "collect_nodes dr f i (n # ns) m =
     (case measure_node (dr i) f n of
        Inl e \<Rightarrow> Inl e
      | Inr (n1, value) \<Rightarrow>
          (case (case value of None \<Rightarrow> Inr m | Some v \<Rightarrow> append_measurement (sensor_type n1) v m) of
             Inl e \<Rightarrow> Inl e
           | Inr m1 \<Rightarrow>
               (let n2 = (if maint_r (dr i) < 0.05 \<and> \<not> operational n1 then maintain n1 else n1)
                in case collect_nodes dr f (Suc i) ns m1 of
                     Inl e \<Rightarrow> Inl e
                   | Inr (ns', m') \<Rightarrow> Inr (n2 # ns', m'))))"

record sensor_data =
  soil_moisture_avg :: real
  soil_moisture_var :: real
  soil_N :: real
  obs_pest_pressure :: real

definition np_var :: "real list \<Rightarrow> real" where
  "np_var xs = np_mean (map (\<lambda>x. (x - np_mean xs)\<^sup>2) xs)"

definition aggregate :: "measurements \<Rightarrow> sensor_data" where
  "aggregate m =
     \<lparr>soil_moisture_avg = (if m_soil_moisture m \<noteq> [] then np_mean (m_soil_moisture m) else 0),
      soil_moisture_var = (if m_soil_moisture m \<noteq> [] then np_var (m_soil_moisture m) else 0),
      soil_N = (if m_nutrient m \<noteq> [] then np_mean (m_nutrient m) else 0),
      obs_pest_pressure = (if m_pest m \<noteq> [] then np_mean (m_pest m) / 100 else 0)\<rparr>"

definition collect_data :: "(nat \<Rightarrow> node_draw) \<Rightarrow> farm \<Rightarrow> error + (sensor_node list \<times> sensor_data)" where
  "collect_data dr f =
     (case collect_nodes dr f 0 (nodes f)
             \<lparr>m_soil_moisture = [], m_nutrient = [], m_pest = []\<rparr> of
        Inl e \<Rightarrow> Inl e
      | Inr (ns, m) \<Rightarrow> Inr (ns, aggregate m))"

text \<open>The count of operational nodes over the count of nodes, an integer division by
  \<open>len(self.nodes)\<close> that Python refuses when the list is empty.\<close>

definition calculate_uptime :: "sensor_node list \<Rightarrow> error + real" where
  "calculate_uptime ns =
     (case py_div (real (length (filter operational ns))) (int (length ns)) of
        Inl e \<Rightarrow> Inl e
      | Inr q \<Rightarrow> Inr (q * 100))"

subsection \<open>Decisions and actions\<close>

record decisions =
  irrigate :: bool
  irrigation_amount :: real
  fertilize :: bool
  fertilizer_amount :: real
  apply_pesticide :: bool

definition decision_engine :: "sensor_data \<Rightarrow> weather_day \<Rightarrow> farm \<Rightarrow> decisions" where
  "decision_engine sd w s =
     (let d0 = \<lparr>irrigate = False, irrigation_amount = 0, fertilize = False,
                fertilizer_amount = 0, apply_pesticide = False\<rparr>;
          deficit = max 0 (25 - soil_moisture_avg sd);
          d1 = (if deficit > 5
                then d0\<lparr>irrigate := True, irrigation_amount := min (deficit * 1.2) 10\<rparr> else d0);
          growth_stage = crop_growth_stage s;
          n_def = max 0 ((40 - soil_N sd) * growth_stage);
          d2 = (if n_def > 5 \<and> 0.2 < growth_stage \<and> growth_stage < 0.8
                then d1\<lparr>fertilize := True, fertilizer_amount := min (n_def * 2) 20\<rparr> else d1)
      in if obs_pest_pressure sd > 0.4 then d2\<lparr>apply_pesticide := True\<rparr> else d2)"

definition execute_actions :: "decisions \<Rightarrow> farm \<Rightarrow> farm" where
  "execute_actions d s =
     (let s1 = (if irrigate d
                then s\<lparr>soil_moisture := map (\<lambda>m. m + irrigation_amount d * 0.8) (soil_moisture s),
                       irrigation_applied := irrigation_applied s + irrigation_amount d,
                       water_used := water_used s + irrigation_amount d\<rparr>
                else s);
          s2 = (if fertilize d
                then s1\<lparr>soil_nutrients :=
                          (soil_nutrients s1)\<lparr>nut_N := nut_N (soil_nutrients s1) + fertilizer_amount d * 0.7\<rparr>,
                        fertilizer_applied := fertilizer_applied s1 + fertilizer_amount d\<rparr>
                else s1)
      in if apply_pesticide d then s2\<lparr>pest_pressure := pest_pressure s2 * 0.3\<rparr> else s2)"

subsection \<open>Economics\<close>


definition costs_sum :: "costs_rec \<Rightarrow> real" where
  "costs_sum c = cost_system c + cost_water c + cost_fertilizer c + cost_labor c"

definition total_cost :: "farm \<Rightarrow> real" where
  "total_cost s = costs_sum (costs s) * real_of_int (days s)"

text \<open>Division of floats raises on a zero divisor; \<open>calculate_roi\<close> guards it.\<close>

definition float_div :: "real \<Rightarrow> real \<Rightarrow> error + real" where
  "float_div a b = (if b = 0 then Inl ZeroDivisionError else Inr (a / b))"

definition calculate_roi :: "farm \<Rightarrow> error + real" where
  "calculate_roi s =
     (let tc = total_cost s; net_benefit = revenue s - tc
      in if tc > 0
         then (case float_div net_benefit tc of Inl e \<Rightarrow> Inl e | Inr q \<Rightarrow> Inr (q * 100))
         else Inr 0)"

definition update_economics :: "farm \<Rightarrow> error + farm" where
  "update_economics s =
     (case py_div 20 (days s) of
        Inl e \<Rightarrow> Inl e
      | Inr labor \<Rightarrow>
          (let c = costs s;
               c1 = c\<lparr>cost_water := cost_water c + irrigation_applied s * 0.05\<rparr>;
               c2 = c1\<lparr>cost_fertilizer := cost_fertilizer c1 + fertilizer_applied s * 1.2\<rparr>;
               c3 = c2\<lparr>cost_labor := cost_labor c2 + labor\<rparr>;
               c4 = c3\<lparr>cost_system := 3500 / (365 * 5)\<rparr>;
               s1 = s\<lparr>costs := c4\<rparr>
           in Inr (if day_counter s1 = days s1 - 1
                   then s1\<lparr>revenue := yield_kg s1 * 0.3\<rparr> else s1)))"

subsection \<open>The day step\<close>

definition advance_day :: "tick_draws \<Rightarrow> farm \<Rightarrow> error + (farm \<times> bool)" where
  "advance_day dr s =
     (if day_counter s \<ge> days s then Inr (s, False)
      else
        (case py_get (weather s) (day_counter s) of
           Inl e \<Rightarrow> Inl e
         | Inr today \<Rightarrow>
             (let s1 = update_soil_moisture (dep_noise dr) today s;
                  s2 = update_crop_growth today s1;
                  s3 = update_pest_pressure today s2
              in case collect_data (node_draws dr) s3 of
                   Inl e \<Rightarrow> Inl e
                 | Inr (ns, sd) \<Rightarrow>
                     (let s4 = s3\<lparr>nodes := ns\<rparr>;
                          s5 = execute_actions (decision_engine sd today s4) s4
                      in case update_economics s5 of
                           Inl e \<Rightarrow> Inl e
                         | Inr s6 \<Rightarrow>
                             Inr (s6\<lparr>day_counter := day_counter s6 + 1,
                                     current_date := current_date s6 + 1\<rparr>, True)))))"

text \<open>The state after \<open>k\<close> consecutive calls of \<open>advance_day\<close>, call \<open>j\<close> using the draws \<open>dr j\<close>.\<close>

fun run_days :: "nat \<Rightarrow> (nat \<Rightarrow> tick_draws) \<Rightarrow> farm \<Rightarrow> error + farm" where
  "run_days 0 dr s = Inr s"
| "run_days (Suc k) dr s =
     (case run_days k dr s of
        Inl e \<Rightarrow> Inl e
      | Inr s1 \<Rightarrow> (case advance_day (dr k) s1 of Inl e \<Rightarrow> Inl e | Inr (s2, again) \<Rightarrow> Inr s2))"

section \<open>The simpler engine (simulation.py)\<close>

text \<open>
  The second \<open>VirtualFarm\<close> class; its fields and functions carry the prefix \<open>sim_\<close>
  where the name is already taken by the first engine. The size is an integer here:
  it is the length of the moisture vector.
\<close>

text \<open>\<open>np.mean\<close> with the empty case: \<open>None\<close> stands for the NaN that numpy returns.\<close>

definition np_mean_opt :: "real list \<Rightarrow> real option" where
  "np_mean_opt xs = (if xs = [] then None else Some (np_mean xs))"

definition np_clip :: "real \<Rightarrow> real \<Rightarrow> real \<Rightarrow> real" where
  "np_clip x lo hi = min (max x lo) hi"

record log_entry =
  log_day :: int
  log_soil_moisture :: "real option"
  log_soil_N :: real
  log_pest_pressure :: real
  log_crop_growth :: real
  log_water_used :: real
  log_irrigation :: real
  log_fertilizer :: real

record sim_farm =
  sim_size :: int
  sim_crop_type :: string
  simulation_days :: int
  sim_day_counter :: int
  sim_soil_moisture :: "real list"
  sim_soil_nutrients :: nutrients
  sim_pest_pressure :: real
  sim_crop_growth_stage :: real
  sim_water_used :: real
  sim_fertilizer_applied :: real
  sim_irrigation_applied :: real
  daily_logs :: "log_entry list"

datatype choice4 = Pick0 | Pick1 | Pick2 | Pick3

record sim_draws =
  et_u :: real
  rain_pick :: choice4
  pest_u :: real

text \<open>\<open>np.random.choice([0, 0.01, 0.05, 0.1], p=...)\<close>: the element that was picked.\<close>

definition rainfall_of :: "choice4 \<Rightarrow> real" where
  "rainfall_of c = (case c of Pick0 \<Rightarrow> 0 | Pick1 \<Rightarrow> 0.01 | Pick2 \<Rightarrow> 0.05 | Pick3 \<Rightarrow> 0.1)"

text \<open>numpy refuses a negative length (\<open>size=(self.size,)\<close>); nothing else is checked.\<close>

definition sim_VirtualFarm_init :: "int \<Rightarrow> string \<Rightarrow> int \<Rightarrow> (nat \<Rightarrow> real) \<Rightarrow> error + sim_farm" where
  "sim_VirtualFarm_init sz crop_type sim_days u =
     (if sz < 0 then Inl ValueError
      else Inr \<lparr>sim_size = sz, sim_crop_type = crop_type, simulation_days = sim_days,
                sim_day_counter = 0,
                sim_soil_moisture = map (\<lambda>i. uniform 0.2 0.5 (u i)) [0..<nat sz],
                sim_soil_nutrients = \<lparr>nut_N = 50, nut_P = 30, nut_K = 40\<rparr>,
                sim_pest_pressure = 0.1, sim_crop_growth_stage = 0,
                sim_water_used = 0, sim_fertilizer_applied = 0, sim_irrigation_applied = 0,
                daily_logs = []\<rparr>)"

text \<open>
  The growth rate is NaN exactly when the average moisture is; \<open>min(1.0, NaN)\<close> is 1.0
  in Python, since \<open>NaN < 1.0\<close> is false and \<open>min\<close> then keeps its first argument.
\<close>

definition growth_rate :: "real option \<Rightarrow> sim_farm \<Rightarrow> real option" where
  "growth_rate avg s =
     (case avg of
        None \<Rightarrow> None
      | Some a \<Rightarrow> Some (a * 0.4 + nut_N (sim_soil_nutrients s) / 100 * 0.3
                        + (1 - sim_pest_pressure s) * 0.3))"

definition simulate_day :: "sim_draws \<Rightarrow> sim_farm \<Rightarrow> sim_farm \<times> bool" where
  "simulate_day dr s =
     (let et = uniform 0.01 0.03 (et_u dr);
          rain = rainfall_of (rain_pick dr);
          avg_moisture = np_mean_opt (sim_soil_moisture s);
          dry = (case avg_moisture of None \<Rightarrow> False | Some a \<Rightarrow> a < 0.25);
          irrigation = (if dry then 0.05 else 0);
          s1 = (if dry
                then s\<lparr>sim_soil_moisture := map (\<lambda>m. m + irrigation) (sim_soil_moisture s),
                       sim_irrigation_applied :=
                         sim_irrigation_applied s + irrigation * real_of_int (sim_size s),
                       sim_water_used := sim_water_used s + irrigation * real_of_int (sim_size s)\<rparr>
                else s);
          s2 = s1\<lparr>sim_soil_moisture :=
                    map (\<lambda>m. np_clip (m + (rain - et)) 0 1) (sim_soil_moisture s1)\<rparr>;
          nutrient_uptake = 0.3 * sim_crop_growth_stage s2;
          s3 = s2\<lparr>sim_soil_nutrients :=
                    (sim_soil_nutrients s2)\<lparr>nut_N := max 0 (nut_N (sim_soil_nutrients s2) - nutrient_uptake)\<rparr>\<rparr>;
          s4 = (if nut_N (sim_soil_nutrients s3) < 20
                then s3\<lparr>sim_soil_nutrients :=
                          (sim_soil_nutrients s3)\<lparr>nut_N := nut_N (sim_soil_nutrients s3) + 10\<rparr>,
                        sim_fertilizer_applied := sim_fertilizer_applied s3 + 10\<rparr>
                else s3);
          s5 = s4\<lparr>sim_pest_pressure :=
                    np_clip (sim_pest_pressure s4 + uniform (- 0.01) 0.02 (pest_u dr)) 0 1\<rparr>;
          s6 = s5\<lparr>sim_crop_growth_stage :=
                    (case growth_rate avg_moisture s5 of
                       None \<Rightarrow> 1
                     | Some g \<Rightarrow> min 1 (sim_crop_growth_stage s5 + 0.01 * g))\<rparr>;
          s7 = s6\<lparr>sim_day_counter := sim_day_counter s6 + 1\<rparr>;
          s8 = s7\<lparr>daily_logs := daily_logs s7 @
                    [\<lparr>log_day = sim_day_counter s7, log_soil_moisture = avg_moisture,
                      log_soil_N = nut_N (sim_soil_nutrients s7),
                      log_pest_pressure = sim_pest_pressure s7,
                      log_crop_growth = sim_crop_growth_stage s7,
                      log_water_used = sim_water_used s7,
                      log_irrigation = irrigation * real_of_int (sim_size s7),
                      log_fertilizer = sim_fertilizer_applied s7\<rparr>]\<rparr>
      in (s8, sim_crop_growth_stage s8 < 1 \<and> sim_day_counter s8 < simulation_days s8))"

definition sim_advance_day :: "sim_draws \<Rightarrow> sim_farm \<Rightarrow> sim_farm \<times> bool" where
  "sim_advance_day dr s = simulate_day dr s"

text \<open>The state after \<open>k\<close> consecutive calls of \<open>sim_advance_day\<close>.\<close>

fun sim_run_days :: "nat \<Rightarrow> (nat \<Rightarrow> sim_draws) \<Rightarrow> sim_farm \<Rightarrow> sim_farm" where
  "sim_run_days 0 dr s = s"
| "sim_run_days (Suc k) dr s = fst (sim_advance_day (dr k) (sim_run_days k dr s))"

section \<open>Invariants of the reachable states\<close>

text \<open>
  The depth of a node is one of the three values of \<open>random.choice([0.1, 0.3, 0.6])\<close>.
\<close>

definition node_ok :: "sensor_node \<Rightarrow> bool" where
  "node_ok n \<longleftrightarrow> snd (snd (position n)) \<in> {0.1, 0.3, 0.6}"

text \<open>
  What every state of the weather-driven engine satisfies from construction on: the
  moisture vector is not empty, the weather table has one row per day with a non-negative
  temperature, the day counter is within the table, the growth stage is in the unit
  interval and the pest pressure is zero.
\<close>

definition farm_inv :: "farm \<Rightarrow> bool" where
  "farm_inv s \<longleftrightarrow>
     soil_moisture s \<noteq> [] \<and> (\<forall>n \<in> set (nodes s). node_ok n)
     \<and> length (weather s) = nat (days s) \<and> 0 \<le> day_counter s \<and> day_counter s \<le> days s
     \<and> (\<forall>w \<in> set (weather s). 0 \<le> temperature w)
     \<and> 0 \<le> crop_growth_stage s \<and> crop_growth_stage s \<le> 1 \<and> pest_pressure s = 0"

text \<open>The corresponding invariant of the simpler engine.\<close>

definition sim_inv :: "sim_farm \<Rightarrow> bool" where
  "sim_inv t \<longleftrightarrow>
     (\<forall>m \<in> set (sim_soil_moisture t). 0 \<le> m) \<and> 0 \<le> sim_size t
     \<and> 0 \<le> sim_crop_growth_stage t \<and> sim_crop_growth_stage t \<le> 1
     \<and> 0 \<le> sim_pest_pressure t \<and> sim_pest_pressure t \<le> 1"

section \<open>Concrete inputs\<close>

text \<open>
  The inputs at which the theorems below are instantiated. \<open>cx_farm\<close> is the farm that
  \<open>VirtualFarm.__init__\<close> builds for one hectare of corn over four days from the draws
  \<open>cx_init\<close>; \<open>cx_weather\<close> is its weather table. On day 3 the seasonal temperature is
  at its minimum of 5 degrees.
\<close>

definition ex_net :: "nat \<Rightarrow> net_draw" where
  "ex_net = (\<lambda>i. \<lparr>depth_choice = First, x_u = 1 / 2, y_u = 1 / 2\<rparr>)"

definition ex_node_draw :: node_draw where
  "ex_node_draw = \<lparr>battery_u = 1 / 2, fail_r = 1 / 2, noise = 0, maint_r = 1 / 2\<rparr>"

definition cx_init :: init_draws where
  "cx_init = \<lparr>moisture_u = (\<lambda>i. 1 / 2),
     weather_d = \<lparr>weibull = (\<lambda>d. 7 / 5), et_normal = (\<lambda>d. if d = 3 then - 1 else 2)\<rparr>,
     network_d = ex_net\<rparr>"

definition cx_ticks :: "nat \<Rightarrow> tick_draws" where
  "cx_ticks = (\<lambda>k. \<lparr>dep_noise = (if k = 3 then - 11 / 10 else 0), node_draws = (\<lambda>i. ex_node_draw)\<rparr>)"

definition cx_weather :: "weather_day list" where
  "cx_weather =
     [\<lparr>day = 0, temperature = 15, rainfall = 7, evapotranspiration = 19 / 2\<rparr>,
      \<lparr>day = 1, temperature = 25, rainfall = 7, evapotranspiration = 29 / 2\<rparr>,
      \<lparr>day = 2, temperature = 15, rainfall = 7, evapotranspiration = 19 / 2\<rparr>,
      \<lparr>day = 3, temperature = 5, rainfall = 7, evapotranspiration = 3 / 2\<rparr>]"

definition cx_farm :: farm where
  "cx_farm = \<lparr>size_ha = 1, crop = ''corn'', soil = ''loam'', days = 4,
     current_date = 0, day_counter = 0, soil_moisture = [25, 25, 25],
     soil_nutrients = \<lparr>nut_N = 50, nut_P = 30, nut_K = 40\<rparr>,
     crop_growth_stage = 0, pest_pressure = 0, weather = cx_weather,
     irrigation_applied = 0, fertilizer_applied = 0, water_used = 0, yield_kg = 0,
     costs = \<lparr>cost_system = 0, cost_water = 0, cost_fertilizer = 0, cost_labor = 0\<rparr>,
     revenue = 0,
     nodes = [\<lparr>node_id = 0, sensor_type = ''soil_moisture'', position = (1 / 2, 1 / 2, 1 / 10),
               battery = 100, operational = True\<rparr>]\<rparr>"


definition ex_costly :: farm where
  "ex_costly = cx_farm\<lparr>costs := \<lparr>cost_system = 1, cost_water = 2, cost_fertilizer = 3, cost_labor = 4\<rparr>,
     revenue := 50\<rparr>"

definition ex_layers :: farm where
  "ex_layers = cx_farm\<lparr>soil_moisture := [10, 20, 30]\<rparr>"

definition ex_node :: sensor_node where
  "ex_node = \<lparr>node_id = 0, sensor_type = ''soil_moisture'', position = (1 / 2, 1 / 2, 1 / 10),
     battery = 100, operational = True\<rparr>"

definition ex_ripening :: farm where
  "ex_ripening = cx_farm\<lparr>crop_growth_stage := 949 / 1000\<rparr>"

definition ex_day44 :: weather_day where
  "ex_day44 = \<lparr>day = 44, temperature = 30.4, rainfall = 0, evapotranspiration = 13.2\<rparr>"

definition ex_day45 :: weather_day where
  "ex_day45 = \<lparr>day = 45, temperature = 22.1, rainfall = 0, evapotranspiration = 13\<rparr>"

definition ex_u :: "nat \<Rightarrow> real" where
  "ex_u = (\<lambda>i. 1 / 2)"

definition ex_sim_draw :: sim_draws where
  "ex_sim_draw = \<lparr>et_u = 1 / 2, rain_pick = Pick0, pest_u = 1 / 2\<rparr>"

definition ex_sim_draws :: "nat \<Rightarrow> sim_draws" where
  "ex_sim_draws = (\<lambda>k. ex_sim_draw)"

definition ex_sim0 :: sim_farm where
  "ex_sim0 = \<lparr>sim_size = 1, sim_crop_type = ''wheat'', simulation_days = 1,
                sim_day_counter = 0, sim_soil_moisture = [7 / 20],
                sim_soil_nutrients = \<lparr>nut_N = 50, nut_P = 30, nut_K = 40\<rparr>,
                sim_pest_pressure = 0.1, sim_crop_growth_stage = 0,
                sim_water_used = 0, sim_fertilizer_applied = 0, sim_irrigation_applied = 0,
                daily_logs = []\<rparr>"


section \<open>Auxiliary facts\<close>

subsection \<open>Rounding, indexing and the weather table\<close>

lemma rint_ge_floor: "\<lfloor>x\<rfloor> \<le> rint x"
  by (simp add: rint_def Let_def)

lemma np_round1_nonneg: "0 \<le> x \<Longrightarrow> 0 \<le> np_round1 x"
proof -
  assume "0 \<le> x"
  then have "0 \<le> \<lfloor>x * 10\<rfloor>" by simp
  with rint_ge_floor [of "x * 10"] have "0 \<le> rint (x * 10)" by linarith
  then show ?thesis by (simp add: np_round1_def)
qed

lemma seasonal_ge5: "5 \<le> 15 + 10 * sin (y::real)"
  using sin_ge_minus_one [of y] by linarith

lemma weather_row_temperature: "0 \<le> temperature (weather_row c n wd d)"
  using seasonal_ge5 [of "2 * pi * real d / real_of_int n"]
  by (auto simp: weather_row_def Let_def intro!: np_round1_nonneg)

lemma generate_weather_profile_Inr:
  "generate_weather_profile c n wd = Inr w \<Longrightarrow>
     0 \<le> n \<and> length w = nat n \<and> (\<forall>x \<in> set w. 0 \<le> temperature x)"
  by (auto simp: generate_weather_profile_def weather_row_temperature split: if_splits)

lemma depth_of_ok: "depth_of c \<in> {0.1, 0.3, 0.6}"
  by (cases c) (simp_all add: depth_of_def)

lemma new_node_ok: "node_ok (new_node sz nd i)"
  using depth_of_ok [of "depth_choice (nd i)"] by (simp add: new_node_def node_ok_def)

lemma initialize_network_ok: "n \<in> set (initialize_network sz nd) \<Longrightarrow> node_ok n"
  by (auto simp: initialize_network_def new_node_ok)

lemma initialize_soil_moisture_length: "length (initialize_soil_moisture st u) = 3"
  by (simp add: initialize_soil_moisture_def)

lemma VirtualFarm_init_inv:
  assumes "VirtualFarm_init sz c st n date dr = Inr s"
  shows "farm_inv s"
proof -
  from assms obtain w where w: "generate_weather_profile c n (weather_d dr) = Inr w"
    by (auto simp: VirtualFarm_init_def split: sum.splits)
  note W = generate_weather_profile_Inr [OF w]
  from assms w have s: "s = \<lparr>size_ha = sz, crop = c, soil = st, days = n,
               current_date = date, day_counter = 0,
               soil_moisture = initialize_soil_moisture st (moisture_u dr),
               soil_nutrients = \<lparr>nut_N = 50, nut_P = 30, nut_K = 40\<rparr>,
               crop_growth_stage = 0, pest_pressure = 0, weather = w,
               irrigation_applied = 0, fertilizer_applied = 0, water_used = 0, yield_kg = 0,
               costs = \<lparr>cost_system = 0, cost_water = 0, cost_fertilizer = 0, cost_labor = 0\<rparr>,
               revenue = 0, nodes = initialize_network sz (network_d dr)\<rparr>"
    by (simp add: VirtualFarm_init_def)
  have "soil_moisture s \<noteq> []"
    using initialize_soil_moisture_length [of st "moisture_u dr"] by (auto simp: s)
  with W show ?thesis
    by (simp add: farm_inv_def s initialize_network_ok)
qed

lemma depth_index: "node_ok n \<Longrightarrow> py_int (snd (snd (position n)) * 10) div 10 - 1 = - 1"
  by (auto simp: node_ok_def py_int_def)

lemma py_get_last: "xs \<noteq> [] \<Longrightarrow> py_get xs (- 1) = Inr (last xs)"
  by (cases xs rule: rev_cases) (simp_all add: py_get_def Let_def nth_append)

lemma py_get_in_range:
  "0 \<le> i \<Longrightarrow> i < int (length xs) \<Longrightarrow> py_get xs i = Inr (xs ! nat i)"
  by (simp add: py_get_def Let_def)

lemma measure_node_total:
  assumes "node_ok n" "soil_moisture f \<noteq> []"
  shows "\<exists>n1 v. measure_node d f n = Inr (n1, v) \<and> position n1 = position n
          \<and> sensor_type n1 = sensor_type n
          \<and> (v \<noteq> None \<longrightarrow> sensor_type n \<in> set sensor_types)"
  using depth_index [OF assms(1)] py_get_last [OF assms(2)]
  by (simp add: measure_node_def Let_def sensor_types_def)

lemma append_measurement_total:
  "k \<in> set sensor_types \<Longrightarrow> \<exists>m1. append_measurement k v m = Inr m1"
  by (auto simp: append_measurement_def sensor_types_def)

lemma maintain_position: "position (maintain n) = position n"
  by (simp add: maintain_def)

lemma collect_nodes_total:
  assumes "soil_moisture f \<noteq> []"
  shows "(\<forall>n \<in> set ns. node_ok n) \<Longrightarrow>
         \<exists>ns' m'. collect_nodes dr f i ns m = Inr (ns', m') \<and> (\<forall>n \<in> set ns'. node_ok n)
            \<and> length ns' = length ns"
proof (induction ns arbitrary: i m)
  case Nil
  then show ?case by simp
next
  case (Cons n ns)
  from Cons.prems have n: "node_ok n" and ns: "\<forall>x \<in> set ns. node_ok x" by simp_all
  from measure_node_total [OF n assms, of "dr i"] obtain n1 v where
    m: "measure_node (dr i) f n = Inr (n1, v)" and p: "position n1 = position n"
    and t: "sensor_type n1 = sensor_type n" and k: "v \<noteq> None \<longrightarrow> sensor_type n \<in> set sensor_types"
    by blast
  have "\<exists>m1. (case v of None \<Rightarrow> Inr m | Some x \<Rightarrow> append_measurement (sensor_type n1) x m) = Inr m1"
    using k t append_measurement_total by (cases v) auto
  then obtain m1 where m1: "(case v of None \<Rightarrow> Inr m | Some x \<Rightarrow> append_measurement (sensor_type n1) x m) = Inr m1" ..
  from Cons.IH [OF ns, of "Suc i" m1] obtain ns' m' where
    r: "collect_nodes dr f (Suc i) ns m1 = Inr (ns', m')" and ok: "\<forall>x \<in> set ns'. node_ok x"
    and len: "length ns' = length ns" by blast
  have "node_ok n1" using n p by (simp add: node_ok_def)
  then have "node_ok (maintain n1)" by (simp add: node_ok_def maintain_position)
  with \<open>node_ok n1\<close> m m1 r ok len show ?case by (simp add: Let_def)
qed

lemma collect_data_total:
  assumes "soil_moisture f \<noteq> []" "\<forall>n \<in> set (nodes f). node_ok n"
  shows "\<exists>ns sd. collect_data dr f = Inr (ns, sd) \<and> (\<forall>n \<in> set ns. node_ok n)"
proof -
  from collect_nodes_total [OF assms, of dr 0 "\<lparr>m_soil_moisture = [], m_nutrient = [], m_pest = []\<rparr>"]
  obtain ns' m' where "collect_nodes dr f 0 (nodes f) \<lparr>m_soil_moisture = [], m_nutrient = [], m_pest = []\<rparr> = Inr (ns', m')"
    and "\<forall>n \<in> set ns'. node_ok n" by blast
  then show ?thesis by (simp add: collect_data_def)
qed

subsection \<open>What each update changes\<close>

lemma np_mean_nonneg: "\<forall>x \<in> set xs. 0 \<le> x \<Longrightarrow> 0 \<le> np_mean xs"
  by (simp add: np_mean_def sum_list_nonneg)

lemma daily_growth_nonneg:
  "0 \<le> temperature w \<Longrightarrow> 0 \<le> np_mean (soil_moisture s) \<Longrightarrow> 0 \<le> daily_growth w s"
  by (simp add: daily_growth_def Let_def)

lemma update_soil_moisture_fields:
  "days (update_soil_moisture g w s) = days s"
  "day_counter (update_soil_moisture g w s) = day_counter s"
  "weather (update_soil_moisture g w s) = weather s"
  "nodes (update_soil_moisture g w s) = nodes s"
  "crop_growth_stage (update_soil_moisture g w s) = crop_growth_stage s"
  "pest_pressure (update_soil_moisture g w s) = pest_pressure s"
  "irrigation_applied (update_soil_moisture g w s) = irrigation_applied s"
  "fertilizer_applied (update_soil_moisture g w s) = fertilizer_applied s"
  "water_used (update_soil_moisture g w s) = water_used s + (0.7 * evapotranspiration w + g)"
  "soil_moisture (update_soil_moisture g w s) =
     map (\<lambda>m. max 0 (m - (0.7 * evapotranspiration w + g) + 0.6 * rainfall w)) (soil_moisture s)"
  by (simp_all add: update_soil_moisture_def Let_def)

lemma update_crop_growth_fields:
  "days (update_crop_growth w s) = days s"
  "day_counter (update_crop_growth w s) = day_counter s"
  "weather (update_crop_growth w s) = weather s"
  "nodes (update_crop_growth w s) = nodes s"
  "soil_moisture (update_crop_growth w s) = soil_moisture s"
  "pest_pressure (update_crop_growth w s) = pest_pressure s"
  "irrigation_applied (update_crop_growth w s) = irrigation_applied s"
  "fertilizer_applied (update_crop_growth w s) = fertilizer_applied s"
  "water_used (update_crop_growth w s) = water_used s"
  "crop_growth_stage (update_crop_growth w s) = min 1 (crop_growth_stage s + daily_growth w s)"
  by (simp_all add: update_crop_growth_def Let_def)

lemma update_pest_pressure_fields:
  "days (update_pest_pressure w s) = days s"
  "day_counter (update_pest_pressure w s) = day_counter s"
  "weather (update_pest_pressure w s) = weather s"
  "nodes (update_pest_pressure w s) = nodes s"
  "soil_moisture (update_pest_pressure w s) = soil_moisture s"
  "crop_growth_stage (update_pest_pressure w s) = crop_growth_stage s"
  "irrigation_applied (update_pest_pressure w s) = irrigation_applied s"
  "fertilizer_applied (update_pest_pressure w s) = fertilizer_applied s"
  "water_used (update_pest_pressure w s) = water_used s"
  by (simp_all add: update_pest_pressure_def Let_def)

lemma update_pest_pressure_zero:
  "pest_pressure s = 0 \<Longrightarrow> pest_pressure (update_pest_pressure w s) = 0"
  by (simp add: update_pest_pressure_def Let_def)

lemma update_pest_pressure_range:
  assumes "0 \<le> pest_pressure s" "- 500 \<le> temperature w"
  shows "0 \<le> pest_pressure (update_pest_pressure w s) \<and> pest_pressure (update_pest_pressure w s) \<le> 1"
proof -
  define x where
    "x = pest_pressure s * (1 + 0.05 * temperature w / 25) * (1 + (if rainfall w > 5 then 1 else 0) * 0.3)"
  have "0 \<le> 1 + 0.05 * temperature w / 25" using assms(2) by simp
  then have "0 \<le> x" using assms(1) by (simp add: x_def)
  moreover have "pest_pressure (update_pest_pressure w s) = min 1 x * 0.95"
    by (simp add: update_pest_pressure_def Let_def x_def)
  ultimately show ?thesis by (cases "1 \<le> x") (auto simp: min_def)
qed

lemma decision_engine_amounts:
  "irrigate (decision_engine sd w s) \<Longrightarrow> 0 < irrigation_amount (decision_engine sd w s)"
  "fertilize (decision_engine sd w s) \<Longrightarrow> 0 < fertilizer_amount (decision_engine sd w s)"
  by (auto simp: decision_engine_def Let_def split: if_splits)

lemma execute_actions_fields:
  "days (execute_actions d s) = days s"
  "day_counter (execute_actions d s) = day_counter s"
  "weather (execute_actions d s) = weather s"
  "nodes (execute_actions d s) = nodes s"
  "crop_growth_stage (execute_actions d s) = crop_growth_stage s"
  "length (soil_moisture (execute_actions d s)) = length (soil_moisture s)"
  "irrigation_applied (execute_actions d s) =
     irrigation_applied s + (if irrigate d then irrigation_amount d else 0)"
  "fertilizer_applied (execute_actions d s) =
     fertilizer_applied s + (if fertilize d then fertilizer_amount d else 0)"
  "water_used (execute_actions d s) = water_used s + (if irrigate d then irrigation_amount d else 0)"
  "pest_pressure (execute_actions d s) =
     (if apply_pesticide d then pest_pressure s * 0.3 else pest_pressure s)"
  by (simp_all add: execute_actions_def Let_def)

lemma update_economics_Inr:
  assumes "days s \<noteq> 0"
  shows "\<exists>s'. update_economics s = Inr s' \<and> days s' = days s \<and> day_counter s' = day_counter s
     \<and> weather s' = weather s \<and> nodes s' = nodes s \<and> soil_moisture s' = soil_moisture s
     \<and> crop_growth_stage s' = crop_growth_stage s \<and> pest_pressure s' = pest_pressure s
     \<and> irrigation_applied s' = irrigation_applied s \<and> fertilizer_applied s' = fertilizer_applied s
     \<and> water_used s' = water_used s"
  using assms by (simp add: update_economics_def py_div_def Let_def)

subsection \<open>One day of the weather-driven engine\<close>

lemmas phys_fields = update_soil_moisture_fields update_crop_growth_fields
  update_pest_pressure_fields

lemma advance_day_terminal:
  "days s \<le> day_counter s \<Longrightarrow> advance_day dr s = Inr (s, False)"
  by (simp add: advance_day_def)

lemma advance_day_running:
  assumes inv: "farm_inv s" and run: "day_counter s < days s"
  shows "\<exists>s'. advance_day dr s = Inr (s', True) \<and> farm_inv s'
           \<and> day_counter s' = day_counter s + 1 \<and> days s' = days s
           \<and> irrigation_applied s \<le> irrigation_applied s'
           \<and> fertilizer_applied s \<le> fertilizer_applied s'
           \<and> water_used s + (0.7 * evapotranspiration (weather s ! nat (day_counter s)) + dep_noise dr)
                \<le> water_used s'"
proof -
  define today where "today = weather s ! nat (day_counter s)"
  from inv run have idx: "0 \<le> day_counter s" "day_counter s < int (length (weather s))"
    by (simp_all add: farm_inv_def)
  then have get: "py_get (weather s) (day_counter s) = Inr today"
    by (simp add: py_get_in_range today_def)
  from idx have "today \<in> set (weather s)" by (simp add: today_def)
  with inv have temp: "0 \<le> temperature today" by (simp add: farm_inv_def)
  define s1 where "s1 = update_soil_moisture (dep_noise dr) today s"
  define s2 where "s2 = update_crop_growth today s1"
  define s3 where "s3 = update_pest_pressure today s2"
  have sm1: "soil_moisture s1 \<noteq> []" "\<forall>x \<in> set (soil_moisture s1). 0 \<le> x"
    using inv by (auto simp: s1_def update_soil_moisture_fields farm_inv_def)
  have growth: "0 \<le> daily_growth today s1"
    using temp sm1 by (simp add: daily_growth_nonneg np_mean_nonneg)
  have cgs3: "0 \<le> crop_growth_stage s3" "crop_growth_stage s3 \<le> 1"
    using inv growth by (simp_all add: s3_def s2_def s1_def phys_fields farm_inv_def)
  have pest3: "pest_pressure s3 = 0"
    using inv by (simp add: s3_def s2_def s1_def phys_fields update_pest_pressure_zero farm_inv_def)
  have sm3: "soil_moisture s3 \<noteq> []" using sm1 by (simp add: s3_def s2_def phys_fields)
  have nodes3: "\<forall>n \<in> set (nodes s3). node_ok n"
    using inv by (simp add: s3_def s2_def s1_def phys_fields farm_inv_def)
  from collect_data_total [OF sm3 nodes3, of "node_draws dr"] obtain ns sd where
    cd: "collect_data (node_draws dr) s3 = Inr (ns, sd)" and ns: "\<forall>n \<in> set ns. node_ok n"
    by blast
  define s4 where "s4 = s3\<lparr>nodes := ns\<rparr>"
  define d where "d = decision_engine sd today s4"
  define s5 where "s5 = execute_actions d s4"
  have "days s5 \<noteq> 0"
    using run idx by (simp add: s5_def s4_def s3_def s2_def s1_def phys_fields execute_actions_fields)
  from update_economics_Inr [OF this] obtain s6 where
    ue: "update_economics s5 = Inr s6" and e: "days s6 = days s5" "day_counter s6 = day_counter s5"
      "weather s6 = weather s5" "nodes s6 = nodes s5" "soil_moisture s6 = soil_moisture s5"
      "crop_growth_stage s6 = crop_growth_stage s5" "pest_pressure s6 = pest_pressure s5"
      "irrigation_applied s6 = irrigation_applied s5" "fertilizer_applied s6 = fertilizer_applied s5"
      "water_used s6 = water_used s5"
    by blast
  define s' where "s' = s6\<lparr>day_counter := day_counter s6 + 1, current_date := current_date s6 + 1\<rparr>"
  have adv: "advance_day dr s = Inr (s', True)"
    using run get cd ue
    by (simp add: advance_day_def Let_def s1_def [symmetric] s2_def [symmetric] s3_def [symmetric]
        s4_def [symmetric] d_def [symmetric] s5_def [symmetric] s'_def)
  have amounts: "0 \<le> (if irrigate d then irrigation_amount d else 0)"
      "0 \<le> (if fertilize d then fertilizer_amount d else 0)"
    using decision_engine_amounts [of sd today s4] by (auto simp: d_def)
  have f5: "days s5 = days s" "day_counter s5 = day_counter s" "weather s5 = weather s"
      "nodes s5 = ns" "crop_growth_stage s5 = crop_growth_stage s3"
      "length (soil_moisture s5) = length (soil_moisture s3)"
      "pest_pressure s5 = 0"
    using pest3 by (simp_all add: s5_def s4_def s3_def s2_def s1_def phys_fields execute_actions_fields)
  have cnt: "irrigation_applied s5 = irrigation_applied s + (if irrigate d then irrigation_amount d else 0)"
      "fertilizer_applied s5 = fertilizer_applied s + (if fertilize d then fertilizer_amount d else 0)"
      "water_used s5 = water_used s + (0.7 * evapotranspiration today + dep_noise dr)
          + (if irrigate d then irrigation_amount d else 0)"
    by (simp_all add: s5_def s4_def s3_def s2_def s1_def phys_fields execute_actions_fields)
  have "soil_moisture s5 \<noteq> []" using f5(6) sm3 by auto
  then have inv': "farm_inv s'"
    using inv run ns cgs3 by (simp add: farm_inv_def s'_def e f5)
  have "day_counter s' = day_counter s + 1" "days s' = days s"
    by (simp_all add: s'_def e f5)
  moreover have "irrigation_applied s \<le> irrigation_applied s'"
      "fertilizer_applied s \<le> fertilizer_applied s'"
    using amounts by (simp_all add: s'_def e cnt)
  moreover have "water_used s + (0.7 * evapotranspiration today + dep_noise dr) \<le> water_used s'"
    using amounts by (simp add: s'_def e cnt)
  ultimately show ?thesis using adv inv' by (simp add: today_def)
qed

subsection \<open>The simpler engine\<close>

lemma np_clip_range: "0 \<le> np_clip x 0 1 \<and> np_clip x 0 1 \<le> 1"
  by (simp add: np_clip_def)

lemma np_mean_opt_nonneg: "\<forall>x \<in> set xs. 0 \<le> x \<Longrightarrow> np_mean_opt xs = Some a \<Longrightarrow> 0 \<le> a"
  using np_mean_nonneg [of xs] by (auto simp: np_mean_opt_def split: if_splits)

lemma simulate_day_fields:
  "sim_size (fst (simulate_day dr t)) = sim_size t"
  "simulation_days (fst (simulate_day dr t)) = simulation_days t"
  "sim_day_counter (fst (simulate_day dr t)) = sim_day_counter t + 1"
  "sim_pest_pressure (fst (simulate_day dr t)) =
     np_clip (sim_pest_pressure t + uniform (- 0.01) 0.02 (pest_u dr)) 0 1"
  "sim_soil_moisture (fst (simulate_day dr t)) =
     map (\<lambda>m. np_clip (m + (rainfall_of (rain_pick dr) - uniform 0.01 0.03 (et_u dr))) 0 1)
       (if (case np_mean_opt (sim_soil_moisture t) of None \<Rightarrow> False | Some a \<Rightarrow> a < 0.25)
        then map (\<lambda>m. m + 0.05) (sim_soil_moisture t) else sim_soil_moisture t)"
  by (simp_all add: simulate_day_def Let_def)


lemma simulate_day_growth:
  "sim_crop_growth_stage (fst (simulate_day dr t)) =
     (case np_mean_opt (sim_soil_moisture t) of
        None \<Rightarrow> 1
      | Some a \<Rightarrow>
          min 1 (sim_crop_growth_stage t + 0.01 *
            (a * 0.4
             + (let n = max 0 (nut_N (sim_soil_nutrients t) - 0.3 * sim_crop_growth_stage t)
                in if n < 20 then n + 10 else n) / 100 * 0.3
             + (1 - np_clip (sim_pest_pressure t + uniform (- 0.01) 0.02 (pest_u dr)) 0 1) * 0.3)))"
  by (simp add: simulate_day_def growth_rate_def Let_def split: option.splits)


lemma simulate_day_inv:
  assumes "sim_inv t"
  shows "sim_inv (fst (simulate_day dr t))"
proof -
  let ?t' = "fst (simulate_day dr t)"
  have sm: "\<forall>m \<in> set (sim_soil_moisture ?t'). 0 \<le> m"
    using np_clip_range by (auto simp: simulate_day_fields)
  have pest: "0 \<le> sim_pest_pressure ?t'" "sim_pest_pressure ?t' \<le> 1"
    using np_clip_range by (simp_all add: simulate_day_fields)
  have cgs: "0 \<le> sim_crop_growth_stage ?t' \<and> sim_crop_growth_stage ?t' \<le> 1"
  proof (cases "np_mean_opt (sim_soil_moisture t)")
    case None
    then show ?thesis by (simp add: simulate_day_growth)
  next
    case (Some a)
    with assms have a: "0 \<le> a" using np_mean_opt_nonneg by (auto simp: sim_inv_def)
    define p where "p = np_clip (sim_pest_pressure t + uniform (- 0.01) 0.02 (pest_u dr)) 0 1"
    define n where "n = (let n = max 0 (nut_N (sim_soil_nutrients t) - 0.3 * sim_crop_growth_stage t)
                in if n < 20 then n + 10 else n)"
    have "p \<le> 1" using np_clip_range by (simp add: p_def)
    moreover have "0 \<le> n" by (simp add: n_def Let_def)
    ultimately have "0 \<le> a * 0.4 + n / 100 * 0.3 + (1 - p) * 0.3" using a by simp
    moreover have "sim_crop_growth_stage ?t' =
        min 1 (sim_crop_growth_stage t + 0.01 * (a * 0.4 + n / 100 * 0.3 + (1 - p) * 0.3))"
      using Some by (simp add: simulate_day_growth p_def n_def)
    ultimately show ?thesis using assms by (simp add: sim_inv_def)
  qed
  from assms sm pest cgs show ?thesis by (simp add: sim_inv_def simulate_day_fields)
qed

lemma sim_VirtualFarm_init_inv:
  assumes "sim_VirtualFarm_init sz c n u = Inr t" "\<forall>i. 0 \<le> u i \<and> u i < 1"
  shows "sim_inv t"
proof -
  from assms(1) have sz: "0 \<le> sz" and t: "t = \<lparr>sim_size = sz, sim_crop_type = c, simulation_days = n,
                sim_day_counter = 0,
                sim_soil_moisture = map (\<lambda>i. uniform 0.2 0.5 (u i)) [0..<nat sz],
                sim_soil_nutrients = \<lparr>nut_N = 50, nut_P = 30, nut_K = 40\<rparr>,
                sim_pest_pressure = 0.1, sim_crop_growth_stage = 0,
                sim_water_used = 0, sim_fertilizer_applied = 0, sim_irrigation_applied = 0,
                daily_logs = []\<rparr>"
    by (auto simp: sim_VirtualFarm_init_def split: if_splits)
  have "0 \<le> uniform 0.2 0.5 (u i)" for i
    using assms(2) by (simp add: uniform_def)
  with sz show ?thesis by (auto simp: sim_inv_def t)
qed

lemma sim_run_days_inv: "sim_inv t \<Longrightarrow> sim_inv (sim_run_days k dr t)"
  by (induction k) (simp_all add: sim_advance_day_def simulate_day_inv)

lemma run_days_inv:
  "farm_inv s0 \<Longrightarrow> \<exists>s. run_days k dr s0 = Inr s \<and> farm_inv s"
proof (induction k)
  case 0
  then show ?case by simp
next
  case (Suc k)
  then obtain s where s: "run_days k dr s0 = Inr s" "farm_inv s" by blast
  show ?case
  proof (cases "day_counter s < days s")
    case True
    from advance_day_running [OF s(2) True, of "dr k"] s(1) show ?thesis by auto
  next
    case False
    with s show ?thesis by (simp add: advance_day_terminal)
  qed
qed

subsection \<open>The concrete inputs\<close>

lemma rint_of_int: "rint (real_of_int z) = z"
  by (simp add: rint_def)

lemma np_round1_tenths: "np_round1 (real_of_int z / 10) = real_of_int z / 10"
  by (simp add: np_round1_def rint_of_int)

lemma sin_three_halves_pi: "sin (3 * pi / 2) = - 1"
  using sin_3over2_pi by (simp add: mult.commute)

lemma cx_table: "map (weather_row ''corn'' 4 (weather_d cx_init)) [0..<4] = cx_weather"
  using np_round1_tenths [of 150] np_round1_tenths [of 70] np_round1_tenths [of 95]
    np_round1_tenths [of 250] np_round1_tenths [of 145] np_round1_tenths [of 50]
    np_round1_tenths [of 15]
  by (simp add: upt_rec weather_row_def sin_three_halves_pi cx_init_def cx_weather_def Let_def)

lemma cx_farm_init: "VirtualFarm_init 1 ''corn'' ''loam'' 4 0 cx_init = Inr cx_farm"
proof -
  have w: "generate_weather_profile ''corn'' 4 (weather_d cx_init) = Inr cx_weather"
    using cx_table by (simp add: generate_weather_profile_def)
  have n: "initialize_network 1 (network_d cx_init) =
      [\<lparr>node_id = 0, sensor_type = ''soil_moisture'', position = (1 / 2, 1 / 2, 1 / 10),
               battery = 100, operational = True\<rparr>]"
    by (simp add: initialize_network_def py_int_def new_node_def cx_init_def ex_net_def
        sensor_types_def depth_of_def uniform_def)
  have m: "initialize_soil_moisture ''loam'' (moisture_u cx_init) = [25, 25, 25]"
    by (simp add: initialize_soil_moisture_def cx_init_def uniform_def upt_rec)
  show ?thesis
    by (simp add: VirtualFarm_init_def w n m cx_farm_def)
qed


lemma ex_sim0_init: "sim_VirtualFarm_init 1 ''wheat'' 1 ex_u = Inr ex_sim0"
  by (simp add: sim_VirtualFarm_init_def ex_sim0_def ex_u_def uniform_def)


lemma reachable_inv:
  assumes "VirtualFarm_init sz c st n date idr = Inr s0"
  shows "\<exists>s. run_days k dr s0 = Inr s \<and> farm_inv s"
  using run_days_inv [OF VirtualFarm_init_inv [OF assms]] .

lemma measure_node_reads_last:
  assumes "node_ok n" "operational n" "sensor_type n = ''soil_moisture''"
    "\<not> fail_r d < 0.005" "soil_moisture f \<noteq> []"
  shows "\<exists>n1. measure_node d f n = Inr (n1, Some (max 0 (last (soil_moisture f) + noise d)))"
  using depth_index [OF assms(1)] py_get_last [OF assms(5)] assms(2-4)
  by (simp add: measure_node_def Let_def)

lemma ex_ripening_day44:
  "crop_growth_stage (update_crop_growth ex_day44 ex_ripening) = 2867 / 3000"
  by (simp add: update_crop_growth_def daily_growth_def np_mean_def ex_day44_def ex_ripening_def
      cx_farm_def Let_def)

lemma calculate_uptime_range:
  assumes "ns \<noteq> []"
  shows "\<exists>v. calculate_uptime ns = Inr v \<and> 0 \<le> v \<and> v \<le> 100"
proof -
  have le: "real (length (filter operational ns)) \<le> real (length ns)" by simp
  have pos: "0 < real (length ns)" using assms by simp
  from le pos have "real (length (filter operational ns)) / real (length ns) * 100 \<le> 100"
    by (simp add: field_simps)
  moreover have "0 \<le> real (length (filter operational ns)) / real (length ns) * 100" by simp
  moreover have "calculate_uptime ns =
      Inr (real (length (filter operational ns)) / real (length ns) * 100)"
    using assms by (simp add: calculate_uptime_def py_div_def)
  ultimately show ?thesis by blast
qed




subsection \<open>Four days on the concrete farm\<close>




section \<open>The day step at the end of a run\<close>




section \<open>Pest pressure and growth stage stay in the unit interval\<close>

text \<open>
  Claim C2. For all draws, every configuration from which a farm is constructed and
  every number of ticks, the pest pressure and the crop growth stage lie in the closed
  interval from 0 to 1 after the ticks. In the weather-driven engine the run is shown to
  return a state; in the simpler engine the draws of the initial moisture are values of
  \<open>random()\<close>, between 0 and 1.
\<close>

theorem pest_and_growth_in_unit_interval:
  "(VirtualFarm_init sz c st n date idr = Inr s0 \<longrightarrow>
      (\<exists>s. run_days k dr s0 = Inr s
           \<and> 0 \<le> pest_pressure s \<and> pest_pressure s \<le> 1
           \<and> 0 \<le> crop_growth_stage s \<and> crop_growth_stage s \<le> 1))
   \<and> (sim_VirtualFarm_init z c' n' u = Inr t0 \<and> (\<forall>i. 0 \<le> u i \<and> u i < 1) \<longrightarrow>
        0 \<le> sim_pest_pressure (sim_run_days k sdr t0)
        \<and> sim_pest_pressure (sim_run_days k sdr t0) \<le> 1
        \<and> 0 \<le> sim_crop_growth_stage (sim_run_days k sdr t0)
        \<and> sim_crop_growth_stage (sim_run_days k sdr t0) \<le> 1)"
proof (intro conjI impI)
  assume "VirtualFarm_init sz c st n date idr = Inr s0"
  from reachable_inv [OF this, of k dr]
  show "\<exists>s. run_days k dr s0 = Inr s
           \<and> 0 \<le> pest_pressure s \<and> pest_pressure s \<le> 1
           \<and> 0 \<le> crop_growth_stage s \<and> crop_growth_stage s \<le> 1"
    by (auto simp: farm_inv_def)
next
  assume a: "sim_VirtualFarm_init z c' n' u = Inr t0 \<and> (\<forall>i. 0 \<le> u i \<and> u i < 1)"
  then have "sim_inv t0" using sim_VirtualFarm_init_inv by blast
  then have i: "sim_inv (sim_run_days k sdr t0)" by (rule sim_run_days_inv)
  from i show "0 \<le> sim_pest_pressure (sim_run_days k sdr t0)" by (simp add: sim_inv_def)
  from i show "sim_pest_pressure (sim_run_days k sdr t0) \<le> 1" by (simp add: sim_inv_def)
  from i show "0 \<le> sim_crop_growth_stage (sim_run_days k sdr t0)" by (simp add: sim_inv_def)
  from i show "sim_crop_growth_stage (sim_run_days k sdr t0) \<le> 1" by (simp add: sim_inv_def)
qed

theorem pest_and_growth_in_unit_interval_witness:
  "VirtualFarm_init 1 ''corn'' ''loam'' 4 0 cx_init = Inr cx_farm
   \<and> (\<exists>s. run_days 3 cx_ticks cx_farm = Inr s
           \<and> 0 \<le> pest_pressure s \<and> pest_pressure s \<le> 1
           \<and> 0 \<le> crop_growth_stage s \<and> crop_growth_stage s \<le> 1)
   \<and> sim_VirtualFarm_init 1 ''wheat'' 1 ex_u = Inr ex_sim0
   \<and> (\<forall>i. 0 \<le> ex_u i \<and> ex_u i < 1)
   \<and> 0 \<le> sim_pest_pressure (sim_run_days 3 ex_sim_draws ex_sim0)
   \<and> sim_pest_pressure (sim_run_days 3 ex_sim_draws ex_sim0) \<le> 1
   \<and> 0 \<le> sim_crop_growth_stage (sim_run_days 3 ex_sim_draws ex_sim0)
   \<and> sim_crop_growth_stage (sim_run_days 3 ex_sim_draws ex_sim0) \<le> 1"
proof -
  have u: "\<forall>i. 0 \<le> ex_u i \<and> ex_u i < 1" by (simp add: ex_u_def)
  from pest_and_growth_in_unit_interval
    [of 1 "''corn''" "''loam''" 4 0 cx_init cx_farm 3 cx_ticks 1 "''wheat''" 1 ex_u ex_sim0 ex_sim_draws]
    cx_farm_init ex_sim0_init u
  show ?thesis by blast
qed

section \<open>Cumulative counters\<close>




section \<open>Farm creation\<close>

text \<open>
  Claim C4, as the code has it. Neither constructor validates its configuration. In the
  weather-driven engine a farm is constructed with the given size, crop type and
  duration for every size and every crop type whenever the duration is not negative;
  a negative duration fails with the array library's \<open>ValueError\<close> for a negative
  sample count. In the simpler engine a farm is constructed for every crop type and
  every duration whenever the size is not negative; a negative size fails with the same
  library error.
\<close>

theorem farm_creation_accepts:
  "(0 \<le> n \<longrightarrow>
      (\<exists>s. VirtualFarm_init sz c st n date idr = Inr s
           \<and> size_ha s = sz \<and> crop s = c \<and> days s = n))
   \<and> (n < 0 \<longrightarrow> VirtualFarm_init sz c st n date idr = Inl ValueError)
   \<and> (0 \<le> z \<longrightarrow>
      (\<exists>t. sim_VirtualFarm_init z c n u = Inr t
           \<and> sim_size t = z \<and> sim_crop_type t = c \<and> simulation_days t = n))
   \<and> (z < 0 \<longrightarrow> sim_VirtualFarm_init z c n u = Inl ValueError)"
  by (simp add: VirtualFarm_init_def generate_weather_profile_def sim_VirtualFarm_init_def)

theorem farm_creation_accepts_witness:
  "(\<exists>s. VirtualFarm_init (- 3) ''banana'' ''loam'' 0 0 cx_init = Inr s
        \<and> size_ha s = - 3 \<and> crop s = ''banana'' \<and> days s = 0)
   \<and> VirtualFarm_init (- 3) ''banana'' ''loam'' (- 1) 0 cx_init = Inl ValueError
   \<and> (\<exists>t. sim_VirtualFarm_init 0 ''banana'' 0 ex_u = Inr t
        \<and> sim_size t = 0 \<and> sim_crop_type t = ''banana'' \<and> simulation_days t = 0)
   \<and> sim_VirtualFarm_init (- 1) ''banana'' (- 1) ex_u = Inl ValueError"
  using farm_creation_accepts [of 0 "- 3" "''banana''" "''loam''" 0 cx_init 0 ex_u]
    farm_creation_accepts [of "- 1" "- 3" "''banana''" "''loam''" 0 cx_init "- 1" ex_u]
  by simp

text \<open>
  Claim C4 as stated fails: a farm of size -3 with the unknown crop \<open>banana\<close> and
  duration 0 is constructed by the weather-driven engine, and a farm of size 0 with
  that crop and duration 0 by the simpler one.
\<close>

theorem invalid_configuration_constructs:
  "\<not> isl (VirtualFarm_init (- 3) ''banana'' ''loam'' 0 0 cx_init)
   \<and> size_ha (projr (VirtualFarm_init (- 3) ''banana'' ''loam'' 0 0 cx_init)) = - 3
   \<and> crop (projr (VirtualFarm_init (- 3) ''banana'' ''loam'' 0 0 cx_init)) = ''banana''
   \<and> days (projr (VirtualFarm_init (- 3) ''banana'' ''loam'' 0 0 cx_init)) = 0
   \<and> \<not> isl (sim_VirtualFarm_init 0 ''banana'' 0 ex_u)"
  by (simp add: VirtualFarm_init_def generate_weather_profile_def sim_VirtualFarm_init_def)

section \<open>The reading of a soil-moisture sensor\<close>

text \<open>
  Claim C5 at a failing input. The only node of a one-hectare farm, a soil-moisture
  sensor at depth 0.1, measures on a farm whose moisture vector is 10, 20, 30 with
  noise 0 and without a fault: the reading is 30, the last component of the vector,
  not 10, the component of the node's own depth band. The index
  \<open>int(depth * 10) // 10 - 1\<close> is -1 for each of the three depths.
\<close>

theorem shallow_sensor_reads_deepest_band:
  "initialize_network 1 ex_net = [ex_node]
   \<and> soil_moisture ex_layers = [10, 20, 30]
   \<and> measure_node ex_node_draw ex_layers ex_node = Inr (ex_node\<lparr>battery := 997 / 10\<rparr>, Some 30)"
  by (simp add: initialize_network_def new_node_def sensor_types_def ex_net_def depth_of_def
      ex_node_def ex_layers_def cx_farm_def measure_node_def ex_node_draw_def py_int_def
      py_get_def uniform_def Let_def)

section \<open>Initialisation of the sensor network\<close>

text \<open>
  Claim C6, as the code has it. For every farm size the network has exactly
  \<open>int(size * 1.5)\<close> nodes, the product truncated towards zero (none when it is
  negative); node \<open>i\<close> has identifier \<open>i\<close> and the sensor type at position \<open>i mod 3\<close>
  of soil moisture, nutrient, pest.
\<close>

theorem initialize_network_count_and_types:
  "length (initialize_network sz nd) = nat (py_int (sz * 1.5))
   \<and> (\<forall>i < length (initialize_network sz nd).
         sensor_type (initialize_network sz nd ! i) = sensor_types ! (i mod 3)
         \<and> node_id (initialize_network sz nd ! i) = i)"
  by (simp add: initialize_network_def new_node_def)

theorem initialize_network_count_and_types_witness:
  "length (initialize_network 10 ex_net) = 15
   \<and> 4 < length (initialize_network 10 ex_net)
   \<and> sensor_type (initialize_network 10 ex_net ! 4) = ''nutrient''
   \<and> node_id (initialize_network 10 ex_net ! 4) = 4"
proof -
  have n: "nat (py_int (10 * 1.5)) = 15" by (simp add: py_int_def)
  from initialize_network_count_and_types [of 10 ex_net] n
  have len: "length (initialize_network 10 ex_net) = 15"
    and all: "\<forall>i < length (initialize_network 10 ex_net).
         sensor_type (initialize_network 10 ex_net ! i) = sensor_types ! (i mod 3)
         \<and> node_id (initialize_network 10 ex_net ! i) = i" by simp_all
  from len have lt: "4 < length (initialize_network 10 ex_net)" by simp
  from all lt have "sensor_type (initialize_network 10 ex_net ! 4) = sensor_types ! (4 mod 3)
         \<and> node_id (initialize_network 10 ex_net ! 4) = 4" by blast
  with len lt show ?thesis by (simp add: sensor_types_def)
qed

text \<open>
  Claim C6 as stated fails: for a farm of size 1 the network has one node, while 1.5
  rounds to 2.
\<close>

theorem node_count_is_not_rounded:
  "length (initialize_network 1 ex_net) = 1 \<and> round (1 * 1.5 :: real) = 2"
  by (simp add: initialize_network_def py_int_def round_def)

section \<open>Yield at maturity\<close>

text \<open>
  Claim C7, as the code has it. On every tick after which the growth stage is at least
  0.95 the yield is set to \<open>size * 5000 * stressFactor\<close>, with the stress factor of
  that day's temperature (1 minus a twentieth of the excess over 30 degrees); on a tick
  after which the growth stage is below 0.95 the yield is unchanged. The assignment is
  made again on every later tick.
\<close>

theorem yield_is_set_on_every_mature_tick:
  "(0.95 \<le> crop_growth_stage (update_crop_growth w s) \<longrightarrow>
      yield_kg (update_crop_growth w s) = size_ha s * 5000 * (1 - max 0 (temperature w - 30) / 20))
   \<and> (crop_growth_stage (update_crop_growth w s) < 0.95 \<longrightarrow>
      yield_kg (update_crop_growth w s) = yield_kg s)"
  by (auto simp add: update_crop_growth_def stress_factor_def Let_def min_def)

theorem yield_is_set_on_every_mature_tick_witness:
  "0.95 \<le> crop_growth_stage (update_crop_growth ex_day44 ex_ripening)
   \<and> yield_kg (update_crop_growth ex_day44 ex_ripening) = 4900
   \<and> crop_growth_stage (update_crop_growth ex_day44 cx_farm) < 0.95
   \<and> yield_kg (update_crop_growth ex_day44 cx_farm) = 0"
proof -
  have a: "0.95 \<le> crop_growth_stage (update_crop_growth ex_day44 ex_ripening)"
    by (simp add: ex_ripening_day44)
  have b: "crop_growth_stage (update_crop_growth ex_day44 cx_farm) < 0.95"
    by (simp add: update_crop_growth_fields daily_growth_def np_mean_def ex_day44_def cx_farm_def Let_def)
  have c: "size_ha ex_ripening * 5000 * (1 - max 0 (temperature ex_day44 - 30) / 20) = 4900"
    "yield_kg cx_farm = 0"
    by (simp_all add: ex_ripening_def cx_farm_def ex_day44_def)
  from yield_is_set_on_every_mature_tick [of ex_day44 ex_ripening]
    yield_is_set_on_every_mature_tick [of ex_day44 cx_farm] a b c
  show ?thesis by simp
qed

text \<open>
  Claim C7 as stated fails: a one-hectare crop that first reaches maturity on day 44, at
  30.4 degrees, gets the yield 4900; the tick of day 45, at 22.1 degrees, sets it to 5000.
\<close>

theorem yield_changes_after_maturity:
  "crop_growth_stage ex_ripening < 0.95
   \<and> 0.95 \<le> crop_growth_stage (update_crop_growth ex_day44 ex_ripening)
   \<and> yield_kg (update_crop_growth ex_day44 ex_ripening) = 4900
   \<and> yield_kg (update_crop_growth ex_day45 (update_crop_growth ex_day44 ex_ripening)) = 5000"
  by (simp add: update_crop_growth_def daily_growth_def stress_factor_def np_mean_def
      ex_day44_def ex_day45_def ex_ripening_def cx_farm_def Let_def)

section \<open>Return on investment\<close>

text \<open>
  Claim C8. For every farm state the ROI computation returns normally: it is
  \<open>netBenefit / totalCost * 100\<close> when the total cost is positive and exactly 0 when
  the total cost is 0; the division is never reached with a zero divisor.
\<close>

theorem calculate_roi_guarded:
  "(0 < total_cost s \<longrightarrow>
      calculate_roi s = Inr ((revenue s - total_cost s) / total_cost s * 100))
   \<and> (total_cost s = 0 \<longrightarrow> calculate_roi s = Inr 0)
   \<and> calculate_roi s \<noteq> Inl ZeroDivisionError"
  by (simp add: calculate_roi_def float_div_def Let_def)

theorem calculate_roi_guarded_witness:
  "0 < total_cost ex_costly \<and> calculate_roi ex_costly = Inr 25
   \<and> total_cost cx_farm = 0 \<and> calculate_roi cx_farm = Inr 0"
  using calculate_roi_guarded [of ex_costly] calculate_roi_guarded [of cx_farm]
  by (simp add: ex_costly_def cx_farm_def total_cost_def costs_sum_def)

section \<open>Sensor uptime\<close>

text \<open>
  Claim C9 at a failing input. The network of a farm of half a hectare has no node
  (\<open>int(0.75)\<close> is 0), and \<open>calculate_uptime\<close> on it divides by the number of nodes:
  the result is the error \<open>ZeroDivisionError\<close>, not a value between 0 and 100.
\<close>

theorem calculate_uptime_fails_on_empty_network:
  "initialize_network (1 / 2) ex_net = []
   \<and> calculate_uptime (initialize_network (1 / 2) ex_net) = Inl ZeroDivisionError"
  by (simp add: initialize_network_def py_int_def calculate_uptime_def py_div_def)

section \<open>Pest pressure in the weather-driven engine\<close>

text \<open>
  Claim C10. In the weather-driven engine the pest pressure of a constructed farm is
  exactly 0, and for all draws and every number of calls of \<open>advance_day\<close> the run
  returns a state whose pest pressure is still exactly 0: every update only multiplies
  the value (and caps it at 1).
\<close>

theorem pest_pressure_stays_zero:
  assumes "VirtualFarm_init sz c st n date idr = Inr s0"
  shows "pest_pressure s0 = 0 \<and> (\<exists>s. run_days k dr s0 = Inr s \<and> pest_pressure s = 0)"
proof -
  from VirtualFarm_init_inv [OF assms] have "pest_pressure s0 = 0" by (simp add: farm_inv_def)
  moreover from reachable_inv [OF assms, of k dr]
  have "\<exists>s. run_days k dr s0 = Inr s \<and> pest_pressure s = 0" by (auto simp: farm_inv_def)
  ultimately show ?thesis by blast
qed

theorem pest_pressure_stays_zero_witness:
  "VirtualFarm_init 1 ''corn'' ''loam'' 4 0 cx_init = Inr cx_farm
   \<and> pest_pressure cx_farm = 0
   \<and> (\<exists>s. run_days 4 cx_ticks cx_farm = Inr s \<and> pest_pressure s = 0)"
  using pest_pressure_stays_zero [OF cx_farm_init, of 4 cx_ticks] cx_farm_init by blast

end
